theory Spec2Isabelle
  imports Complex_Main "HOL-Library.List_Lexorder" "HOL-Library.Char_ord" "HOL-Library.Multiset"
    "HOL-Library.AList" "HOL-Library.Product_Lexorder"
begin

section \<open>Country resolution\<close>

text \<open>
  The static table \<open>country_mapping\<close> of \<open>script.py\<close> (a Python dict literal), as an
  association list in the order of the literal. Lookup is \<open>map_of\<close>; the literal has no
  repeated key, so the first match is the only one.
\<close>

definition country_mapping :: "(string \<times> string) list" where
  "country_mapping =
    [(''Angola'', ''AGO''), (''Argentina'', ''ARG''), (''Bahrain'', ''BHR''), (''Brazil'', ''BRA''),
     (''Bulgaria'', ''BGR''), (''Chile'', ''CHL''), (''China'', ''CHN''), (''Colombia'', ''COL''),
     (''Costa Rica'', ''CRI''), (''Cote D'' @ [CHR 0x27] @ ''Ivoire (Ivory Coast)'', ''CIV''),
     (''Dominican Republic'', ''DOM''),
     (''Ecuador'', ''ECU''), (''Egypt'', ''EGY''), (''Ghana'', ''GHA''), (''Guatemala'', ''GTM''),
     (''Hungary'', ''HUN''), (''Jamaica'', ''JAM''), (''Jordan'', ''JOR''), (''Kazakhstan'', ''KAZ''),
     (''Kenya'', ''KEN''), (''Latvia'', ''LVA''), (''Malaysia'', ''MYS''), (''Mexico'', ''MEX''),
     (''Morocco'', ''MAR''), (''Nigeria'', ''NGA''), (''Oman'', ''OMN''), (''Pakistan'', ''PAK''),
     (''Panama'', ''PAN''), (''Peru'', ''PER''), (''Philippines'', ''PHL''), (''Poland'', ''POL''),
     (''Romania'', ''ROU''), (''Saudi Arabia'', ''SAU''), (''Serbia'', ''SRB''),
     (''South Africa'', ''ZAF''),
     (''Sri Lanka'', ''LKA''), (''Turkey'', ''TUR''), (''Ukraine'', ''UKR''),
     (''United Arab Emirates'', ''ARE''),
     (''Uruguay'', ''URY'')]"

text \<open>\<open>country in country_mapping\<close>.\<close>

definition in_mapping :: "string \<Rightarrow> bool" where
  "in_mapping country = (map_of country_mapping country \<noteq> None)"

text \<open>\<open>country_mapping.get(country, country)\<close>.\<close>

definition mapping_get :: "string \<Rightarrow> string" where
  "mapping_get country =
    (case map_of country_mapping country of Some code \<Rightarrow> code | None \<Rightarrow> country)"

text \<open>
  \<open>embi_countries = [country_mapping.get(country, country) for country in countries
  if country in country_mapping]\<close>.
\<close>

definition embi_countries :: "string list \<Rightarrow> string list" where
  "embi_countries countries = map mapping_get (filter in_mapping countries)"


section \<open>Data model\<close>

text \<open>
  A cell of a pandas Series or DataFrame is a float; \<open>None\<close> stands for NaN, the marker of
  a missing observation. Rounding of float arithmetic is not modelled: a present value is a
  real number.
\<close>

type_synonym val = "real option"

text \<open>A pandas Series indexed by country code: labels and values, in positional order.\<close>

type_synonym series = "(string \<times> val) list"

text \<open>
  An entry of a time index, classified by what \<open>extract_year_from_index\<close> does with it:
  \<open>Period y\<close> has a \<open>year\<close> attribute of value \<open>y\<close> (a \<open>pd.Period\<close>, the index of
  \<open>weo.WEO.getc\<close>); \<open>IntLike n\<close> has none and \<open>int(idx)\<close> returns \<open>n\<close> (an integer label,
  as \<open>CustomWEO.getc\<close> builds with \<open>astype(int)\<close>, or a numeric string);
  \<open>Other s\<close> has none, \<open>int(idx)\<close> raises, and \<open>str(idx)\<close> is \<open>s\<close>.
\<close>

datatype idx = Period int | IntLike int | Other string

text \<open>What \<open>extract_year_from_index\<close> returns: a Python int or a Python str.\<close>

datatype year = YInt int | YStr string

datatype error = KeyError | IndexError | TypeError | ValueError

text \<open>
  A DataFrame as \<open>w.getc(var)\<close> returns it: the time index (one entry per row) and the
  columns, each a country code with its values, one per row.
\<close>

record frame =
  index :: "idx list"
  cols :: "(string \<times> val list) list"

section \<open>Year resolution\<close>

fun extract_year_from_index :: "idx \<Rightarrow> year" where
  "extract_year_from_index (Period y) = YInt y"
| "extract_year_from_index (IntLike n) = YInt n"
| "extract_year_from_index (Other s) = YStr s"

text \<open>\<open>index_years = [extract_year_from_index(idx) for idx in series_data.index]\<close>.\<close>

definition index_years :: "frame \<Rightarrow> year list" where
  "index_years f = map extract_year_from_index (index f)"

text \<open>Python's \<open>xs.index(x)\<close>: the first position of \<open>x\<close>; \<open>None\<close> where Python raises.\<close>

fun list_index :: "'a list \<Rightarrow> 'a \<Rightarrow> nat option" where
  "list_index [] x = None"
| "list_index (y # ys) x =
    (if y = x then Some 0 else map_option Suc (list_index ys x))"

text \<open>
  Python's \<open>min(xs, key=key)\<close>: one pass that replaces the current best only by a strictly
  smaller key, so the first minimal element wins; \<open>None\<close> on the empty list, where Python
  raises.
\<close>

fun min_by :: "('a \<Rightarrow> int) \<Rightarrow> 'a \<Rightarrow> 'a list \<Rightarrow> 'a" where
  "min_by key best [] = best"
| "min_by key best (x # xs) = min_by key (if key x < key best then x else best) xs"

fun py_min :: "('a \<Rightarrow> int) \<Rightarrow> 'a list \<Rightarrow> 'a option" where
  "py_min key [] = None"
| "py_min key (x # xs) = Some (min_by key x xs)"

text \<open>\<open>numeric_years = [y for y in index_years if isinstance(y, int)]\<close>.\<close>

fun int_years :: "year list \<Rightarrow> int list" where
  "int_years [] = []"
| "int_years (YInt y # ys) = y # int_years ys"
| "int_years (YStr s # ys) = int_years ys"

fun is_nan :: "string \<times> val \<Rightarrow> bool" where
  "is_nan (c, v) = (v = None)"

fun val_of :: "string \<times> val \<Rightarrow> real" where
  "val_of (c, Some x) = x"
| "val_of (c, None) = 0"

text \<open>
  \<open>Series.sort_values()\<close> with its defaults: ascending by value, the NaN entries last in
  their original order. The present entries are sorted by numpy's default sort, which
  does not promise an order among equal values; the model takes the stable order, and the
  theorems below rely only on the result being ordered and a rearrangement of the input.
\<close>

definition sort_values :: "series \<Rightarrow> series" where
  "sort_values s = sort_key val_of (filter (\<lambda>e. \<not> is_nan e) s) @ filter is_nan s"

text \<open>\<open>series_data.iloc[pos]\<close>: the row at a position, as a Series over the columns.\<close>

definition iloc_row :: "frame \<Rightarrow> nat \<Rightarrow> series" where
  "iloc_row f pos = map (\<lambda>(c, vs). (c, vs ! pos)) (cols f)"

definition iloc :: "frame \<Rightarrow> nat \<Rightarrow> error + series" where
  "iloc f pos = (if pos < length (index f) then Inr (iloc_row f pos) else Inl IndexError)"

text \<open>\<open>series_data.iloc[-1]\<close>, an IndexError on a frame without rows.\<close>

definition iloc_last :: "frame \<Rightarrow> error + series" where
  "iloc_last f = (if index f = [] then Inl IndexError else iloc f (length (index f) - 1))"

text \<open>\<open>return <row>.sort_values(), <year>\<close>.\<close>

definition with_year :: "year \<Rightarrow> error + series \<Rightarrow> error + (series \<times> year)" where
  "with_year y r = (case r of Inl e \<Rightarrow> Inl e | Inr row \<Rightarrow> Inr (sort_values row, y))"

definition get_year_data :: "frame \<Rightarrow> int \<Rightarrow> error + (series \<times> year)" where
  "get_year_data series_data target_year =
    (let index_years = map extract_year_from_index (index series_data) in
     if YInt target_year \<in> set index_years then
       (case list_index index_years (YInt target_year) of
          None \<Rightarrow> Inl ValueError
        | Some year_pos \<Rightarrow> with_year (YInt target_year) (iloc series_data year_pos))
     else
       (let numeric_years = int_years index_years in
        if numeric_years \<noteq> [] then
          (case py_min (\<lambda>x. \<bar>x - target_year\<bar>) numeric_years of
             None \<Rightarrow> Inl ValueError
           | Some closest_year \<Rightarrow>
               (case list_index index_years (YInt closest_year) of
                  None \<Rightarrow> Inl ValueError
                | Some year_pos \<Rightarrow>
                    with_year (YInt closest_year) (iloc series_data year_pos)))
        else with_year (YStr ''last_available'') (iloc_last series_data)))"

text \<open>The two orders a returned Series can be read against.\<close>

fun val_le :: "val \<Rightarrow> val \<Rightarrow> bool" where
  "val_le (Some a) (Some b) = (a \<le> b)"
| "val_le None (Some b) = False"
| "val_le v None = True"

definition value_ordered :: "series \<Rightarrow> bool" where
  "value_ordered s = sorted_wrt val_le (map snd s)"

definition code_ordered :: "series \<Rightarrow> bool" where
  "code_ordered s = sorted (map fst s)"

definition result_code_ordered :: "error + (series \<times> year) \<Rightarrow> bool" where
  "result_code_ordered r = (case r of Inl e \<Rightarrow> True | Inr (row, y) \<Rightarrow> code_ordered row)"

text \<open>Sample frames: two countries over a period index, and one over 2015 to 2028.\<close>

definition frame_two :: frame where
  "frame_two = \<lparr> index = [Period 2024, Period 2025, IntLike 2025],
      cols = [(''ARG'', [Some 1, Some 7, Some 3]), (''BRA'', [Some 2, Some 5, None])] \<rparr>"


section \<open>Rolling median\<close>

text \<open>
  \<open>series_data.loc[pd.Period(current_year-9, freq='A'):pd.Period(current_year, freq='A')]\<close>
  is a label slice: pandas turns each bound into a position and takes the rows between
  them. A bound that occurs in the index stands at its occurrences, which must be
  adjacent: the slice starts at the first and ends after the last. A bound that does not
  occur is placed by binary search, which pandas allows on a monotonic index only: on any
  other index the lookup's KeyError stands. A period is never equal to an integer label,
  so on an index of plain integer years neither bound occurs, and the search, which
  compares the period with the labels, raises a TypeError when the years are in order. An
  index that mixes periods with other labels is not monotonic. For the slice an entry
  \<open>IntLike n\<close> is read as the integer label \<open>n\<close>.
\<close>

text \<open>The positions at which a label occurs in an index.\<close>

definition positions :: "'a list \<Rightarrow> 'a \<Rightarrow> nat list" where
  "positions xs x = filter (\<lambda>i. xs ! i = x) [0..<length xs]"

definition contiguous :: "nat list \<Rightarrow> bool" where
  "contiguous ps = (ps = [hd ps..<hd ps + length ps])"

text \<open>The years of an index made of periods only (a PeriodIndex).\<close>

fun period_years :: "idx list \<Rightarrow> int list option" where
  "period_years [] = Some []"
| "period_years (Period y # es) = map_option ((#) y) (period_years es)"
| "period_years (e # es) = None"

text \<open>
  The labels of an index of integers only, and of an index of other strings only; an
  index is monotonic when its labels can be compared with each other and stand in
  ascending or in descending order.
\<close>

fun int_labels :: "idx list \<Rightarrow> int list option" where
  "int_labels [] = Some []"
| "int_labels (IntLike n # es) = map_option ((#) n) (int_labels es)"
| "int_labels (e # es) = None"

fun str_labels :: "idx list \<Rightarrow> string list option" where
  "str_labels [] = Some []"
| "str_labels (Other s # es) = map_option ((#) s) (str_labels es)"
| "str_labels (e # es) = None"

definition monotonic_labels :: "idx list \<Rightarrow> bool" where
  "monotonic_labels idxs =
    (case int_labels idxs of
       Some ns \<Rightarrow> sorted ns \<or> sorted (rev ns)
     | None \<Rightarrow>
        (case str_labels idxs of
           Some ss \<Rightarrow> sorted ss \<or> sorted (rev ss)
         | None \<Rightarrow> False))"

definition slice_bound :: "idx list \<Rightarrow> int \<Rightarrow> bool \<Rightarrow> error + nat" where
  "slice_bound idxs label left =
    (let ps = positions idxs (Period label) in
     if ps \<noteq> [] then
       (if contiguous ps then Inr (if left then hd ps else last ps + 1) else Inl KeyError)
     else
       (case period_years idxs of
          None \<Rightarrow> if monotonic_labels idxs then Inl TypeError else Inl KeyError
        | Some ys \<Rightarrow>
            if sorted ys then Inr (length (filter (\<lambda>y. y < label) ys))
            else if sorted (rev ys) then Inr (length (filter (\<lambda>y. label < y) ys))
            else Inl KeyError))"

definition loc_slice :: "frame \<Rightarrow> int \<Rightarrow> int \<Rightarrow> error + frame" where
  "loc_slice f lo hi =
    (case slice_bound (index f) lo True of
       Inl e \<Rightarrow> Inl e
     | Inr a \<Rightarrow>
        (case slice_bound (index f) hi False of
           Inl e \<Rightarrow> Inl e
         | Inr b \<Rightarrow>
            Inr \<lparr> index = take (b - a) (drop a (index f)),
                  cols = map (\<lambda>(c, vs). (c, take (b - a) (drop a vs))) (cols f) \<rparr>))"

text \<open>
  \<open>DataFrame.median()\<close>: per column, the median of the values that are not NaN; NaN for
  a column without any. The median of an even number of values is the mean of the two in
  the middle.
\<close>

definition present :: "val list \<Rightarrow> real list" where
  "present vs = List.map_filter (\<lambda>v. v) vs"

definition median :: "real list \<Rightarrow> val" where
  "median xs =
    (let s = sort xs; n = length s in
     if n = 0 then None
     else if odd n then Some (s ! (n div 2))
     else Some ((s ! (n div 2 - 1) + s ! (n div 2)) / 2))"

definition frame_median :: "frame \<Rightarrow> series" where
  "frame_median f = map (\<lambda>(c, vs). (c, median (present vs))) (cols f)"

definition median_10yr :: "frame \<Rightarrow> int \<Rightarrow> error + series" where
  "median_10yr series_data current_year =
    (case loc_slice series_data (current_year - 9) current_year of
       Inl e \<Rightarrow> Inl e
     | Inr window \<Rightarrow> Inr (sort_values (frame_median window)))"

text \<open>
  The cells of a column whose year lies in the window from \<open>cy - 9\<close> to \<open>cy\<close>, given the
  years of the rows.
\<close>

definition in_window :: "int \<Rightarrow> int list \<Rightarrow> val list \<Rightarrow> val list" where
  "in_window cy ys vs = map snd (filter (\<lambda>(y, v). cy - 9 \<le> y \<and> y \<le> cy) (zip ys vs))"

section \<open>Collection loop\<close>

text \<open>
  \<open>var_dict\<close>, in the order of the literal, and the loop
  \<open>for var in var_dict.keys(): try: ... except Exception: ...\<close>. The object \<open>w\<close> is not part
  of the script: \<open>getc\<close>, the function from an indicator code to its frame or to the
  exception it raises, is a parameter. The three dictionaries are association lists in
  insertion order; \<open>AList.update\<close> replaces the value of a key in place and appends a new
  key, as assignment to a Python dict does. A value \<open>None\<close> is Python's \<open>None\<close>.
\<close>

definition var_dict :: "(string \<times> string) list" where
  "var_dict =
    [(''NGDPD'', ''GDP (US Dollars)''),
     (''LP'', ''Population''),
     (''NGDP_RPCH'', ''Real GDP growth (%)''),
     (''NID_NGDP'', ''Total investment (% of GDP)''),
     (''NGSD_NGDP'', ''National savings (% of GDP)''),
     (''PCPIPCH'', ''Inflation, consumer prices (%)''),
     (''GGR_NGDP'', ''General government revenue (% of GDP)''),
     (''GGX_NGDP'', ''General government total expenditure (% of GDP)''),
     (''GGXCNL_NGDP'', ''General government net lending/borrowing (% of GDP)''),
     (''GGXONLB_NGDP'', ''General government net borrowing (% of GDP)''),
     (''GGXWDG_NGDP'', ''General government gross debt (% of GDP)''),
     (''BCA_NGDPD'', ''Current account balance (% of GDP)'')]"

text \<open>\<open>w.getc(var)[embi_countries]\<close>: a KeyError when a label is not a column.\<close>

definition select_columns :: "frame \<Rightarrow> string list \<Rightarrow> error + frame" where
  "select_columns f labels =
    (if list_all (\<lambda>c. c \<in> set (map fst (cols f))) labels
     then Inr (f\<lparr> cols := concat (map (\<lambda>c. filter (\<lambda>(k, vs). k = c) (cols f)) labels) \<rparr>)
     else Inl KeyError)"

text \<open>\<open>pd.Series([float('nan')] * len(embi_countries), index=embi_countries).sort_values()\<close>.\<close>

definition nan_series :: "string list \<Rightarrow> series" where
  "nan_series codes = sort_values (map (\<lambda>c. (c, None)) codes)"

record collected =
  current_year_data :: "(string \<times> series option) list"
  median_10yr_data :: "(string \<times> series option) list"
  data_2019 :: "(string \<times> series option) list"

text \<open>
  The body of the \<open>try\<close>: the exception it ends with, if any, and the dictionaries as the
  assignments made before that point leave them.
\<close>

definition collect_try ::
  "(string \<Rightarrow> error + frame) \<Rightarrow> string list \<Rightarrow> int \<Rightarrow> string \<Rightarrow> collected
    \<Rightarrow> error option \<times> collected" where
  "collect_try getc embi current_year var st =
    (case getc var of
       Inl e \<Rightarrow> (Some e, st)
     | Inr full \<Rightarrow>
    (case select_columns full embi of
       Inl e \<Rightarrow> (Some e, st)
     | Inr series_data \<Rightarrow>
    (case get_year_data series_data current_year of
       Inl e \<Rightarrow> (Some e, st)
     | Inr (current_values, used_year) \<Rightarrow>
       (let st1 = st\<lparr> current_year_data :=
                  AList.update var (Some current_values) (current_year_data st) \<rparr> in
        case median_10yr series_data current_year of
          Inl e \<Rightarrow> (Some e, st1)
        | Inr med \<Rightarrow>
          (let st2 = st1\<lparr> median_10yr_data :=
                     AList.update var (Some med) (median_10yr_data st1) \<rparr> in
           case get_year_data series_data 2019 of
             Inr (values_2019, used_year_2019) \<Rightarrow>
               (None, st2\<lparr> data_2019 := AList.update var (Some values_2019) (data_2019 st2) \<rparr>)
           | Inl e \<Rightarrow>
               (None, st2\<lparr> data_2019 :=
                   AList.update var (Some (nan_series embi)) (data_2019 st2) \<rparr>))))))"

text \<open>One iteration: the \<open>except\<close> branch overwrites the three entries with \<open>None\<close>.\<close>

definition collect_var ::
  "(string \<Rightarrow> error + frame) \<Rightarrow> string list \<Rightarrow> int \<Rightarrow> string \<Rightarrow> collected \<Rightarrow> collected" where
  "collect_var getc embi current_year var st =
    (case collect_try getc embi current_year var st of
       (None, st') \<Rightarrow> st'
     | (Some e, st') \<Rightarrow>
         st'\<lparr> current_year_data := AList.update var None (current_year_data st'),
              median_10yr_data := AList.update var None (median_10yr_data st'),
              data_2019 := AList.update var None (data_2019 st') \<rparr>)"

definition collect_init :: collected where
  "collect_init = \<lparr> current_year_data = [], median_10yr_data = [], data_2019 = [] \<rparr>"

definition collect_all ::
  "(string \<Rightarrow> error + frame) \<Rightarrow> string list \<Rightarrow> int \<Rightarrow> collected" where
  "collect_all getc embi current_year =
    fold (collect_var getc embi current_year) (map fst var_dict) collect_init"

text \<open>
  \<open>{k: v for k, v in d.items() if v is not None}\<close>, and the columns of
  \<open>pd.DataFrame(clean).rename(columns=var_dict)\<close>.
\<close>

definition clean_data :: "(string \<times> series option) list \<Rightarrow> (string \<times> series) list" where
  "clean_data d = List.map_filter (\<lambda>(k, v). map_option (Pair k) v) d"

definition rename_column :: "string \<Rightarrow> string" where
  "rename_column k = (case map_of var_dict k of Some name \<Rightarrow> name | None \<Rightarrow> k)"


text \<open>
  Sample frames: integer year labels, as \<open>CustomWEO.getc\<close> returns, and a period index.
\<close>

definition frame_int :: frame where
  "frame_int = \<lparr> index = [IntLike 2024, IntLike 2025], cols = [(''BRA'', [Some 1, Some 2])] \<rparr>"

definition frame_per :: frame where
  "frame_per = \<lparr> index = [Period 2014, Period 2024, Period 2025, Period 2026],
     cols = [(''BRA'', [Some 100, Some 1, Some 2, Some 50]), (''ARG'', [None, None, None, Some 3])] \<rparr>"

text \<open>
  For the proofs: the three views the \<open>try\<close> body computes for one indicator, or the
  exception it ends with, apart from the dictionaries, and the three assignments one
  iteration amounts to. The lemmas \<open>collect_try_success\<close> and \<open>collect_var_store\<close> relate them
  to the loop above.
\<close>

definition collect_views ::
  "(string \<Rightarrow> error + frame) \<Rightarrow> string list \<Rightarrow> int \<Rightarrow> string
    \<Rightarrow> error + (series \<times> series \<times> series)" where
  "collect_views getc embi current_year var =
    (case getc var of
       Inl e \<Rightarrow> Inl e
     | Inr full \<Rightarrow>
    (case select_columns full embi of
       Inl e \<Rightarrow> Inl e
     | Inr series_data \<Rightarrow>
    (case get_year_data series_data current_year of
       Inl e \<Rightarrow> Inl e
     | Inr (current_values, used_year) \<Rightarrow>
    (case median_10yr series_data current_year of
       Inl e \<Rightarrow> Inl e
     | Inr med \<Rightarrow>
    (case get_year_data series_data 2019 of
       Inr (values_2019, used_year_2019) \<Rightarrow> Inr (current_values, med, values_2019)
     | Inl e \<Rightarrow> Inr (current_values, med, nan_series embi))))))"

definition store :: "string \<Rightarrow> (series \<times> series \<times> series) option \<Rightarrow> collected \<Rightarrow> collected" where
  "store var r st =
    st\<lparr> current_year_data := AList.update var (map_option fst r) (current_year_data st),
        median_10yr_data := AList.update var (map_option (fst \<circ> snd) r) (median_10yr_data st),
        data_2019 := AList.update var (map_option (snd \<circ> snd) r) (data_2019 st) \<rparr>"



section \<open>Table assembly and serialization\<close>

text \<open>Python's \<open>str\<close> of an int, \<open>str.endswith\<close>, and \<open>str.replace(old, '')\<close>.\<close>

definition digit_char :: "nat \<Rightarrow> char" where
  "digit_char n = ''0123456789'' ! n"

fun str_nat :: "nat \<Rightarrow> string" where
  "str_nat n = (if n < 10 then [digit_char n] else str_nat (n div 10) @ [digit_char (n mod 10)])"

declare str_nat.simps [simp del]

definition str_int :: "int \<Rightarrow> string" where
  "str_int i = (if i < 0 then CHR ''-'' # str_nat (nat (- i)) else str_nat (nat i))"

definition endswith :: "string \<Rightarrow> string \<Rightarrow> bool" where
  "endswith s suffix = (length suffix \<le> length s \<and> drop (length s - length suffix) s = suffix)"

function remove_all :: "string \<Rightarrow> string \<Rightarrow> string" where
  "remove_all old s =
    (if s = [] \<or> old = [] then s
     else if take (length old) s = old then remove_all old (drop (length old) s)
     else hd s # remove_all old (tl s))"
  by pat_completeness auto
termination
  by (relation "measure (\<lambda>(old, s). length s)") auto

declare remove_all.simps [simp del]

text \<open>
  The loop that builds \<open>columns_tuples\<close>: a column name that ends with none of the three
  suffixes appends nothing.
\<close>

definition column_tuple :: "int \<Rightarrow> string \<Rightarrow> (string \<times> string) option" where
  "column_tuple current_year col =
    (if endswith col (''_'' @ str_int current_year)
       then Some (remove_all (''_'' @ str_int current_year) col, str_int current_year)
     else if endswith col ''_10yr_Median''
       then Some (remove_all ''_10yr_Median'' col, ''10yr_Median'')
     else if endswith col ''_2019''
       then Some (remove_all ''_2019'' col, ''2019'')
     else None)"

definition columns_tuples :: "int \<Rightarrow> string list \<Rightarrow> (string \<times> string) list" where
  "columns_tuples current_year names = List.map_filter (column_tuple current_year) names"

definition add_suffix :: "string \<Rightarrow> (string \<times> series) list \<Rightarrow> (string \<times> series) list" where
  "add_suffix suffix df = map (\<lambda>(k, s). (k @ suffix, s)) df"

definition rename_columns :: "(string \<times> series) list \<Rightarrow> (string \<times> series) list" where
  "rename_columns clean = map (\<lambda>(k, s). (rename_column k, s)) clean"

text \<open>A cell of a frame built from Series: the value at the label, NaN where absent.\<close>

definition cell :: "series \<Rightarrow> string \<Rightarrow> val" where
  "cell s c = (case map_of s c of Some v \<Rightarrow> v | None \<Rightarrow> None)"

text \<open>
  The row labels of \<open>pd.DataFrame(clean)\<close>, a frame built from a dict of Series: the labels
  of the first Series when all of them carry the same labels in the same order, the union
  in ascending order otherwise. The row labels of \<open>pd.concat([...], axis=1)\<close>: the labels
  of the first frame when all frames agree, otherwise the union in order of first
  appearance.
\<close>

definition frame_index :: "(string \<times> series) list \<Rightarrow> string list" where
  "frame_index df =
    (case map (map fst \<circ> snd) df of
       [] \<Rightarrow> []
     | k # ks \<Rightarrow> if list_all (\<lambda>k'. k' = k) ks then k else sort (remdups (concat (k # ks))))"

definition first_seen :: "string list \<Rightarrow> string list" where
  "first_seen xs = rev (remdups (rev xs))"

definition concat_index :: "string list list \<Rightarrow> string list" where
  "concat_index idxs =
    (case idxs of
       [] \<Rightarrow> []
     | k # ks \<Rightarrow> if list_all (\<lambda>k'. k' = k) ks then k else first_seen (concat (k # ks)))"

text \<open>
  The merged frame \<open>dff\<close>: its row labels and, per (indicator, period) label, the Series the
  column was built from. Assigning a MultiIndex of another length than the column count
  raises a ValueError; \<open>sort_index(axis=1)\<close> orders the column labels.
\<close>

record merged =
  countries :: "string list"
  columns :: "((string \<times> string) \<times> series) list"

definition build_dff :: "int \<Rightarrow> collected \<Rightarrow> error + merged" where
  "build_dff current_year st =
    (let df_current_renamed =
           add_suffix (''_'' @ str_int current_year)
             (rename_columns (clean_data (current_year_data st)));
         df_median_renamed =
           add_suffix ''_10yr_Median'' (rename_columns (clean_data (median_10yr_data st)));
         df_2019_renamed =
           add_suffix ''_2019'' (rename_columns (clean_data (data_2019 st)));
         dff = df_current_renamed @ df_median_renamed @ df_2019_renamed;
         tuples = columns_tuples current_year (map fst dff)
     in if length tuples \<noteq> length dff then Inl ValueError
        else Inr \<lparr> countries =
                     concat_index [frame_index df_current_renamed,
                       frame_index df_median_renamed, frame_index df_2019_renamed],
                   columns = sort_key fst (zip tuples (map snd dff)) \<rparr>)"

text \<open>\<open>round(1)\<close>: to one decimal, a tie to the even neighbour.\<close>

definition round1 :: "real \<Rightarrow> real" where
  "round1 x =
    (let s = x * 10; f = \<lfloor>s\<rfloor>; d = s - of_int f in
     (if d < 1 / 2 then of_int f
      else if 1 / 2 < d then of_int (f + 1)
      else if even f then of_int f else of_int (f + 1)) / 10)"

definition unstacked :: "merged \<Rightarrow> string \<Rightarrow> string \<Rightarrow> string \<Rightarrow> val" where
  "unstacked dff country indicator period =
    (case map_of (columns dff) (indicator, period) of
       Some s \<Rightarrow> map_option round1 (cell s country)
     | None \<Rightarrow> None)"

text \<open>
  \<open>get_country_df\<close>: \<open>dff.loc[country_code]\<close> raises a KeyError for a code that is not a row
  label; \<open>unstack\<close> raises a ValueError on a repeated (indicator, period) label
  and otherwise gives one row per indicator and one column per period that occurs; the
  selection \<open>[['2025', '2019', '10yr_Median']]\<close> raises a KeyError unless all three
  literals are among these columns. The rows are then reordered by \<open>sort_order\<close>.
\<close>

definition get_country_df ::
  "merged \<Rightarrow> string \<Rightarrow> string list \<Rightarrow> error + (string \<times> val \<times> val \<times> val) list" where
  "get_country_df dff country_code sort_order =
    (let keys = map fst (columns dff);
         periods = remdups (map snd keys);
         available_indicators = sort (remdups (map fst keys))
     in if country_code \<notin> set (countries dff) then Inl KeyError
        else if \<not> distinct keys then Inl ValueError
        else if \<not> (''2025'' \<in> set periods \<and> ''2019'' \<in> set periods
                    \<and> ''10yr_Median'' \<in> set periods) then Inl KeyError
        else
          (let ordered_indicators = filter (\<lambda>ind. ind \<in> set available_indicators) sort_order;
               remaining_indicators =
                 filter (\<lambda>ind. ind \<notin> set sort_order) available_indicators;
               final_order = ordered_indicators @ remaining_indicators
           in Inr (map (\<lambda>ind. (ind, unstacked dff country_code ind ''2025'',
                                 unstacked dff country_code ind ''2019'',
                                 unstacked dff country_code ind ''10yr_Median''))
                     final_order)))"

definition logical_order :: "string list" where
  "logical_order =
    [''GDP (US Dollars)'',
     ''Population'',
     ''Real GDP growth (%)'',
     ''Inflation, consumer prices (%)'',
     ''National savings (% of GDP)'',
     ''Total investment (% of GDP)'',
     ''Current account balance (% of GDP)'',
     ''General government revenue (% of GDP)'',
     ''General government total expenditure (% of GDP)'',
     ''General government net lending/borrowing (% of GDP)'',
     ''General government net borrowing (% of GDP)'',
     ''General government gross debt (% of GDP)'']"

text \<open>
  The loop that fills \<open>country_dfs\<close> skips a country whose projection raises; the loop that
  fills \<open>country_metrics_json\<close> writes the three literal keys.
\<close>

definition country_dfs ::
  "merged \<Rightarrow> (string \<times> (string \<times> val \<times> val \<times> val) list) list" where
  "country_dfs dff =
    List.map_filter
      (\<lambda>country_code.
         case get_country_df dff country_code logical_order of
           Inl e \<Rightarrow> None
         | Inr df \<Rightarrow> Some (country_code, df))
      (countries dff)"

definition country_metrics_json ::
  "(string \<times> (string \<times> val \<times> val \<times> val) list) list
    \<Rightarrow> (string \<times> (string \<times> (string \<times> val) list) list) list" where
  "country_metrics_json dfs =
    map (\<lambda>(country_code, df).
          (country_code,
           map (\<lambda>(indicator, v2025, v2019, vmed).
                 (indicator, [(''2025'', v2025), (''2019'', v2019), (''10yr_Median'', vmed)]))
               df))
        dfs"

text \<open>From the collected dictionaries to the serialized structure.\<close>

definition generate ::
  "(string \<Rightarrow> error + frame) \<Rightarrow> string list \<Rightarrow> int
    \<Rightarrow> error + (string \<times> (string \<times> (string \<times> val) list) list) list" where
  "generate getc embi current_year =
    (case build_dff current_year (collect_all getc embi current_year) of
       Inl e \<Rightarrow> Inl e
     | Inr dff \<Rightarrow> Inr (country_metrics_json (country_dfs dff)))"

text \<open>A sample source: population on a period index, GDP on integer labels, nothing else.\<close>

definition sample_getc :: "string \<Rightarrow> error + frame" where
  "sample_getc var =
    (if var = ''LP'' then Inr frame_per
     else if var = ''NGDPD'' then Inr frame_int
     else Inl ValueError)"

section \<open>Properties of country resolution\<close>

lemma embi_countries_map_filter:
  "embi_countries cs = List.map_filter (map_of country_mapping) cs"
  by (induction cs)
    (auto simp: embi_countries_def List.map_filter_def in_mapping_def mapping_get_def)

lemma embi_countries_append:
  "embi_countries (xs @ ys) = embi_countries xs @ embi_countries ys"
  by (simp add: embi_countries_def)

lemma country_mapping_names_distinct: "distinct (map fst country_mapping)"
  unfolding country_mapping_def by simp

lemma country_mapping_codes_distinct: "distinct (map snd country_mapping)"
  unfolding country_mapping_def by simp

text \<open>
  Claim C7. Country resolution sends each holdings name through the static table and keeps
  only the names that are keys of the table: the output is exactly the list of codes of the
  mapped names, in input order, and a name absent from the table contributes nothing,
  wherever it stands in the input.
\<close>

theorem embi_countries_exact:
  "embi_countries cs = List.map_filter (map_of country_mapping) cs
   \<and> (\<forall>name xs ys. map_of country_mapping name = None
        \<longrightarrow> embi_countries (xs @ name # ys) = embi_countries (xs @ ys))"
proof -
  have "embi_countries (xs @ name # ys) = embi_countries (xs @ ys)"
    if "map_of country_mapping name = None" for name xs ys
    using that by (simp add: embi_countries_def in_mapping_def)
  then show ?thesis
    using embi_countries_map_filter by blast
qed

lemma onlyinholdings_unmapped: "map_of country_mapping ''Onlyinholdings'' = None"
  unfolding country_mapping_def by simp

lemma brazil_mapped: "map_of country_mapping ''Brazil'' = Some ''BRA''"
  unfolding country_mapping_def by simp

lemma embi_brazil: "embi_countries [''Brazil''] = [''BRA'']"
  by (simp add: embi_countries_def in_mapping_def mapping_get_def brazil_mapped)

theorem embi_countries_exact_witness:
  "map_of country_mapping ''Onlyinholdings'' = None
   \<and> embi_countries ([''Brazil''] @ ''Onlyinholdings'' # []) = [''BRA'']"
proof -
  have "embi_countries ([''Brazil''] @ ''Onlyinholdings'' # []) = embi_countries ([''Brazil''] @ [])"
    using embi_countries_exact [of "[]"] onlyinholdings_unmapped by blast
  then show ?thesis
    using onlyinholdings_unmapped embi_brazil by simp
qed

text \<open>
  Claim C9. The static name-to-code table is injective: two names that the table maps to
  the same code are the same name.
\<close>

theorem country_mapping_injective:
  "map_of country_mapping n1 = Some code \<Longrightarrow> map_of country_mapping n2 = Some code
   \<Longrightarrow> n1 = n2"
proof -
  assume a1: "map_of country_mapping n1 = Some code"
    and a2: "map_of country_mapping n2 = Some code"
  have inj: "inj_on snd (set country_mapping)"
    using country_mapping_codes_distinct by (simp add: distinct_map)
  from a1 have m1: "(n1, code) \<in> set country_mapping" by (rule map_of_SomeD)
  from a2 have m2: "(n2, code) \<in> set country_mapping" by (rule map_of_SomeD)
  have eq: "snd (n1, code) = snd (n2, code)" by simp
  have "(n1, code) = (n2, code)"
    by (rule inj_onD [OF inj eq m1 m2])
  then show "n1 = n2" by simp
qed

lemma peru_mapped: "map_of country_mapping ''Peru'' = Some ''PER''"
  unfolding country_mapping_def by simp

theorem country_mapping_injective_witness:
  "map_of country_mapping ''Peru'' = Some ''PER'' \<and> ''Peru'' = ''Peru''"
  using country_mapping_injective [OF peru_mapped peru_mapped] peru_mapped by simp

section \<open>Properties of year resolution\<close>

lemma list_index_Some:
  "list_index xs x = Some p \<Longrightarrow> p < length xs \<and> xs ! p = x \<and> (\<forall>q<p. xs ! q \<noteq> x)"
proof (induction xs arbitrary: p)
  case Nil
  then show ?case by simp
next
  case (Cons y ys)
  show ?case
  proof (cases "y = x")
    case True
    with Cons.prems show ?thesis by simp
  next
    case False
    with Cons.prems obtain p' where p': "list_index ys x = Some p'" "p = Suc p'"
      by auto
    from Cons.IH [OF p'(1)] have ih: "p' < length ys" "ys ! p' = x" "\<forall>q<p'. ys ! q \<noteq> x"
      by simp_all
    have "(y # ys) ! q \<noteq> x" if "q < p" for q
      using that False ih(3) p'(2) by (cases q) auto
    with ih p'(2) show ?thesis by simp
  qed
qed

lemma list_index_mem: "x \<in> set xs \<Longrightarrow> \<exists>p. list_index xs x = Some p"
  by (induction xs) auto

lemma min_by_mem: "min_by key b xs \<in> set (b # xs)"
  by (induction xs arbitrary: b) (simp, force)


lemma int_years_set: "y \<in> set (int_years ys) \<longleftrightarrow> YInt y \<in> set ys"
  by (induction ys rule: int_years.induct) auto

lemma mset_sort_values: "mset (sort_values s) = mset s"
  by (simp add: sort_values_def)

lemma val_le_some: "\<not> is_nan e \<Longrightarrow> \<not> is_nan e' \<Longrightarrow> val_le (snd e) (snd e') = (val_of e \<le> val_of e')"
  by (cases e; cases e') auto

lemma val_le_nan: "is_nan e' \<Longrightarrow> val_le (snd e) (snd e')"
  by (cases e; cases e') auto

lemma sorted_wrt_val_le_some:
  "\<forall>e\<in>set xs. \<not> is_nan e \<Longrightarrow> sorted (map val_of xs) \<Longrightarrow> sorted_wrt val_le (map snd xs)"
proof (induction xs)
  case Nil
  then show ?case by simp
next
  case (Cons a xs)
  then show ?case by (auto simp: val_le_some)
qed

lemma value_ordered_sort_values: "value_ordered (sort_values s)"
proof -
  let ?A = "sort_key val_of (filter (\<lambda>e. \<not> is_nan e) s)"
  let ?B = "filter is_nan s"
  have a: "\<forall>e\<in>set ?A. \<not> is_nan e" by simp
  have "sorted (map val_of ?A)" by (rule sorted_sort_key)
  with a have 1: "sorted_wrt val_le (map snd ?A)" by (rule sorted_wrt_val_le_some)
  have 2: "sorted_wrt val_le (map snd ?B)"
    by (induction s) (auto simp: val_le_nan)
  have 3: "\<forall>x\<in>set (map snd ?A). \<forall>y\<in>set (map snd ?B). val_le x y"
    by (auto simp: val_le_nan)
  from 1 2 3 show ?thesis
    unfolding value_ordered_def sort_values_def map_append sorted_wrt_append by blast
qed



lemma list_index_years:
  assumes "list_index (index_years f) y = Some p"
  shows "p < length (index f)"
    and "extract_year_from_index (index f ! p) = y"
    and "\<forall>q<p. extract_year_from_index (index f ! q) \<noteq> y"
proof -
  from list_index_Some [OF assms] have a: "p < length (index_years f)"
    and b: "index_years f ! p = y" and c: "\<forall>q<p. index_years f ! q \<noteq> y"
    by blast+
  from a show len: "p < length (index f)" by (simp add: index_years_def)
  from b len show "extract_year_from_index (index f ! p) = y"
    by (simp add: index_years_def)
  show "\<forall>q<p. extract_year_from_index (index f ! q) \<noteq> y"
  proof (intro allI impI)
    fix q assume "q < p"
    with len c have "q < length (index f)" "index_years f ! q \<noteq> y" by auto
    then show "extract_year_from_index (index f ! q) \<noteq> y"
      by (simp add: index_years_def)
  qed
qed

lemma with_year_Inr:
  "with_year y r = Inr (row, y') \<longleftrightarrow> (\<exists>r0. r = Inr r0 \<and> row = sort_values r0 \<and> y' = y)"
  by (cases r) (auto simp: with_year_def)

lemma exact_branch_result:
  assumes "list_index (index_years f) (YInt t) = Some p"
  shows "get_year_data f t = Inr (sort_values (iloc_row f p), YInt t)"
proof -
  from list_index_Some [OF assms] have p: "p < length (index f)" "index_years f ! p = YInt t"
    by (simp_all add: index_years_def)
  then have "YInt t \<in> set (index_years f)"
    by (metis index_years_def length_map nth_mem)
  with assms p(1) show ?thesis
    by (simp add: get_year_data_def index_years_def with_year_def iloc_def)
qed

lemma closest_branch_result:
  assumes "YInt t \<notin> set (index_years f)"
    and "int_years (index_years f) = y0 # rest"
    and "list_index (index_years f) (YInt (min_by (\<lambda>x. \<bar>x - t\<bar>) y0 rest)) = Some p"
  shows "get_year_data f t
    = Inr (sort_values (iloc_row f p), YInt (min_by (\<lambda>x. \<bar>x - t\<bar>) y0 rest))"
proof -
  from list_index_Some [OF assms(3)] have p: "p < length (index f)"
    by (simp add: index_years_def)
  with assms show ?thesis
    by (simp add: get_year_data_def index_years_def with_year_def iloc_def)
qed

lemma get_year_data_result:
  assumes "get_year_data f t = Inr (row, y)"
  shows "\<exists>p. p < length (index f) \<and> row = sort_values (iloc_row f p)
    \<and> (\<forall>yi. y = YInt yi \<longrightarrow> list_index (index_years f) y = Some p)"
proof (cases "YInt t \<in> set (index_years f)")
  case True
  then obtain p where p: "list_index (index_years f) (YInt t) = Some p"
    using list_index_mem by fastforce
  from list_index_Some [OF p] have "p < length (index f)" by (simp add: index_years_def)
  with exact_branch_result [OF p] assms p show ?thesis by auto
next
  case False
  show ?thesis
  proof (cases "int_years (index_years f)")
    case Nil
    with False assms have *: "with_year (YStr ''last_available'') (iloc_last f) = Inr (row, y)"
      by (simp add: get_year_data_def index_years_def)
    then obtain r0 where r0: "iloc_last f = Inr r0" "row = sort_values r0" "y = YStr ''last_available''"
      by (auto simp: with_year_Inr)
    from r0(1) have "index f \<noteq> []" "r0 = iloc_row f (length (index f) - 1)"
      by (auto simp: iloc_last_def iloc_def split: if_splits)
    with r0 show ?thesis
      by (intro exI [of _ "length (index f) - 1"]) simp
  next
    case (Cons y0 rest)
    let ?c = "min_by (\<lambda>x. \<bar>x - t\<bar>) y0 rest"
    have "?c \<in> set (int_years (index_years f))"
      using min_by_mem [of "\<lambda>x. \<bar>x - t\<bar>" y0 rest] Cons by simp
    then have "YInt ?c \<in> set (index_years f)" by (simp add: int_years_set)
    then obtain p where p: "list_index (index_years f) (YInt ?c) = Some p"
      using list_index_mem by fastforce
    from list_index_Some [OF p] have "p < length (index f)" by (simp add: index_years_def)
    with closest_branch_result [OF False Cons p] assms p show ?thesis by auto
  qed
qed

lemma frame_two_has_2025:
  "YInt 2025 \<in> set (map extract_year_from_index (index frame_two))"
  by (simp add: frame_two_def)

lemma frame_two_2025:
  "get_year_data frame_two 2025 = Inr ([(''BRA'', Some 5), (''ARG'', Some 7)], YInt 2025)"
  by (simp add: get_year_data_def frame_two_def with_year_def iloc_def iloc_row_def
      sort_values_def)




text \<open>
  Claim C2, as the spec states it: the Series that \<open>get_year_data\<close> returns is ordered by
  country code. It is not: with Argentina at 7 and Brazil at 5 for 2025, the result lists
  \<open>BRA\<close> before \<open>ARG\<close>.
\<close>

theorem get_year_data_code_order_counterexample:
  "\<not> result_code_ordered (get_year_data frame_two 2025)"
  by (simp add: frame_two_2025 result_code_ordered_def code_ordered_def)

text \<open>
  Claim C2, amended. In every branch (exact year, closest year, last available row) the
  Series that \<open>get_year_data\<close> returns is ordered by ascending value with the absent values
  last, and it holds exactly the country codes and values of one row of the frame.
\<close>

theorem get_year_data_value_ordered:
  assumes "get_year_data f target_year = Inr (row, y)"
  shows "value_ordered row \<and> (\<exists>p<length (index f). mset row = mset (iloc_row f p))"
proof -
  from get_year_data_result [OF assms] obtain p where "p < length (index f)"
    "row = sort_values (iloc_row f p)" by auto
  then show ?thesis
    using value_ordered_sort_values mset_sort_values by blast
qed

theorem get_year_data_value_ordered_witness:
  "get_year_data frame_two 2025 = Inr ([(''BRA'', Some 5), (''ARG'', Some 7)], YInt 2025)
   \<and> value_ordered [(''BRA'', Some 5), (''ARG'', Some 7)]"
  using get_year_data_value_ordered [OF frame_two_2025] frame_two_2025
  by simp

text \<open>
  Claim C3. If the target year occurs in the normalized time index, \<open>get_year_data\<close> returns
  the values stored in a row of that year (the same codes with the same values, as
  \<open>sort_values\<close> arranges them) together with the target year as the year used.
\<close>

theorem get_year_data_exact:
  assumes "YInt target_year \<in> set (map extract_year_from_index (index f))"
  shows "\<exists>p. p < length (index f)
    \<and> extract_year_from_index (index f ! p) = YInt target_year
    \<and> get_year_data f target_year = Inr (sort_values (iloc_row f p), YInt target_year)
    \<and> mset (sort_values (iloc_row f p)) = mset (iloc_row f p)"
proof -
  from assms obtain p where p: "list_index (index_years f) (YInt target_year) = Some p"
    using list_index_mem unfolding index_years_def by fastforce
  have "p < length (index f)"
    "extract_year_from_index (index f ! p) = YInt target_year"
    using list_index_years [OF p] by blast+
  with exact_branch_result [OF p] mset_sort_values show ?thesis by blast
qed

theorem get_year_data_exact_witness:
  "YInt 2025 \<in> set (map extract_year_from_index (index frame_two))
   \<and> get_year_data frame_two 2025 = Inr ([(''BRA'', Some 5), (''ARG'', Some 7)], YInt 2025)"
  using get_year_data_exact [OF frame_two_has_2025] frame_two_has_2025 frame_two_2025
  by simp



text \<open>
  Claim C10. Whenever \<open>get_year_data\<close> reports an integer year (the target year or the
  closest year), the values it returns are those of the first row, in index order, whose
  entry normalizes to that year; later rows of the same year are not consulted.
\<close>

theorem get_year_data_first_position:
  assumes "get_year_data f target_year = Inr (row, YInt y)"
  shows "\<exists>p. p < length (index f)
    \<and> extract_year_from_index (index f ! p) = YInt y
    \<and> (\<forall>q<p. extract_year_from_index (index f ! q) \<noteq> YInt y)
    \<and> row = sort_values (iloc_row f p)"
proof -
  from get_year_data_result [OF assms] obtain p where p: "p < length (index f)"
    "row = sort_values (iloc_row f p)" "list_index (index_years f) (YInt y) = Some p"
    by auto
  have "extract_year_from_index (index f ! p) = YInt y"
    "\<forall>q<p. extract_year_from_index (index f ! q) \<noteq> YInt y"
    using list_index_years [OF p(3)] by blast+
  with p show ?thesis by blast
qed

theorem get_year_data_first_position_witness:
  "get_year_data frame_two 2025 = Inr ([(''BRA'', Some 5), (''ARG'', Some 7)], YInt 2025)
   \<and> index frame_two ! 1 = Period 2025 \<and> index frame_two ! 2 = IntLike 2025
   \<and> sort_values (iloc_row frame_two 1) = [(''BRA'', Some 5), (''ARG'', Some 7)]
   \<and> sort_values (iloc_row frame_two 2) = [(''ARG'', Some 3), (''BRA'', None)]"
  using get_year_data_first_position [OF frame_two_2025] frame_two_2025
  by (simp add: frame_two_def iloc_row_def sort_values_def)

section \<open>Properties of the collection loop\<close>


lemma collect_try_success:
  assumes "collect_try getc embi cy var st = (None, st')"
  shows "\<exists>t. collect_views getc embi cy var = Inr t \<and> st' = store var (Some t) st"
  using assms
  by (auto simp: collect_try_def collect_views_def store_def Let_def
      split: sum.splits prod.splits)







lemma var_dict_keys_distinct: "distinct (map fst var_dict)"
  unfolding var_dict_def by simp


lemma var_dict_names_not_keys: "set (map snd var_dict) \<inter> set (map fst var_dict) = {}"
  unfolding var_dict_def by simp

lemma select_columns_keys:
  assumes "select_columns f labels = Inr sd"
  shows "set (map fst (cols sd)) = set labels" and "index sd = index f"
proof -
  from assms have all: "list_all (\<lambda>c. c \<in> set (map fst (cols f))) labels"
    and sd: "sd = f\<lparr> cols := concat (map (\<lambda>c. filter (\<lambda>(k, vs). k = c) (cols f)) labels) \<rparr>"
    by (auto simp: select_columns_def split: if_splits)
  from sd show "index sd = index f" by simp
  have "set (map fst (cols sd)) \<subseteq> set labels"
    using sd by auto
  moreover have "set labels \<subseteq> set (map fst (cols sd))"
  proof
    fix c assume c: "c \<in> set labels"
    with all have "c \<in> set (map fst (cols f))" by (simp add: list_all_iff)
    then obtain vs where "(c, vs) \<in> set (cols f)" by auto
    with c sd show "c \<in> set (map fst (cols sd))" by force
  qed
  ultimately show "set (map fst (cols sd)) = set labels" by blast
qed

lemma iloc_row_keys: "map fst (iloc_row f p) = map fst (cols f)"
  by (simp add: iloc_row_def case_prod_beta comp_def)

lemma sort_values_keys: "set (map fst (sort_values s)) = set (map fst s)"
proof -
  have "set (sort_values s) = set s"
    using mset_sort_values [of s] by (metis set_mset_mset)
  then show ?thesis by simp
qed

lemma get_year_data_keys:
  assumes "get_year_data f t = Inr (row, y)"
  shows "set (map fst row) = set (map fst (cols f))"
proof -
  from get_year_data_result [OF assms] obtain p where "row = sort_values (iloc_row f p)"
    by blast
  then show ?thesis by (simp only: sort_values_keys iloc_row_keys)
qed

lemma loc_slice_keys:
  assumes "loc_slice f lo hi = Inr w"
  shows "map fst (cols w) = map fst (cols f)"
  using assms
  by (auto simp: loc_slice_def case_prod_beta comp_def split: sum.splits)

lemma frame_median_keys: "map fst (frame_median f) = map fst (cols f)"
  by (simp add: frame_median_def case_prod_beta comp_def)

lemma median_10yr_keys:
  assumes "median_10yr f cy = Inr med"
  shows "set (map fst med) = set (map fst (cols f))"
proof -
  from assms obtain w where w: "loc_slice f (cy - 9) cy = Inr w"
    and med: "med = sort_values (frame_median w)"
    by (auto simp: median_10yr_def split: sum.splits)
  show ?thesis
    unfolding med sort_values_keys frame_median_keys loc_slice_keys [OF w] ..
qed

lemma nan_series_eq: "nan_series codes = map (\<lambda>c. (c, None)) codes"
  by (simp add: nan_series_def sort_values_def filter_map comp_def)

lemma nan_series_keys: "map fst (nan_series codes) = codes"
  by (simp add: nan_series_eq comp_def)

lemma nan_series_absent: "list_all is_nan (nan_series codes)"
  by (simp add: nan_series_eq list_all_iff)

lemma collect_views_keys:
  assumes "collect_views getc embi cy var = Inr (cur, med, y19)"
  shows "set (map fst cur) = set embi" "set (map fst med) = set embi"
    "set (map fst y19) = set embi"
proof -
  from assms obtain full sd uy where full: "getc var = Inr full"
    and sd: "select_columns full embi = Inr sd"
    and cur: "get_year_data sd cy = Inr (cur, uy)"
    and med: "median_10yr sd cy = Inr med"
    and y19: "(\<exists>u. get_year_data sd 2019 = Inr (y19, u)) \<or> y19 = nan_series embi"
    by (auto simp: collect_views_def split: sum.splits prod.splits)
  note k = select_columns_keys(1) [OF sd]
  from get_year_data_keys [OF cur] k show "set (map fst cur) = set embi" by simp
  from median_10yr_keys [OF med] k show "set (map fst med) = set embi" by simp
  from y19 show "set (map fst y19) = set embi"
  proof
    assume "\<exists>u. get_year_data sd 2019 = Inr (y19, u)"
    then obtain u where "get_year_data sd 2019 = Inr (y19, u)" ..
    from get_year_data_keys [OF this] k show ?thesis by simp
  next
    assume "y19 = nan_series embi"
    then show ?thesis by (simp add: nan_series_keys)
  qed
qed

lemma get_year_data_nonempty:
  assumes "get_year_data f t = Inr r"
  shows "index f \<noteq> []"
proof -
  obtain row y where "r = (row, y)" by (cases r)
  with assms get_year_data_result [of f t row y] show ?thesis by auto
qed

lemma get_year_data_succeeds:
  assumes "index f \<noteq> []"
  shows "\<exists>row y. get_year_data f t = Inr (row, y)"
proof (cases "YInt t \<in> set (index_years f)")
  case True
  then obtain p where p: "list_index (index_years f) (YInt t) = Some p"
    using list_index_mem by fastforce
  from exact_branch_result [OF p] show ?thesis by blast
next
  case False
  show ?thesis
  proof (cases "int_years (index_years f)")
    case Nil
    with False assms show ?thesis
      by (simp add: get_year_data_def index_years_def with_year_def iloc_last_def iloc_def)
  next
    case (Cons y0 rest)
    let ?c = "min_by (\<lambda>x. \<bar>x - t\<bar>) y0 rest"
    have "?c \<in> set (int_years (index_years f))"
      using min_by_mem [of "\<lambda>x. \<bar>x - t\<bar>" y0 rest] Cons by simp
    then have "YInt ?c \<in> set (index_years f)" by (simp add: int_years_set)
    then obtain p where p: "list_index (index_years f) (YInt ?c) = Some p"
      using list_index_mem by fastforce
    from closest_branch_result [OF False Cons p] show ?thesis by blast
  qed
qed

lemma get_year_data_row:
  assumes "get_year_data f t = Inr (row, y)"
  shows "\<exists>p<length (index f). mset row = mset (iloc_row f p)"
proof -
  from get_year_data_result [OF assms] obtain p where "p < length (index f)"
    "row = sort_values (iloc_row f p)" by blast
  then show ?thesis using mset_sort_values by blast
qed

lemma median_None_iff: "median xs = None \<longleftrightarrow> xs = []"
proof (cases "xs = []")
  case True
  then show ?thesis by (simp add: median_def)
next
  case False
  then have "length (sort xs) \<noteq> 0" by simp
  then have "median xs \<noteq> None"
    unfolding median_def Let_def by (simp only: if_False split: if_splits) simp
  with False show ?thesis by simp
qed

lemma present_empty_iff: "present vs = [] \<longleftrightarrow> (\<forall>v\<in>set vs. v = None)"
  by (induction vs) (auto simp: present_def List.map_filter_def)

lemma median_absent_iff: "median (present vs) = None \<longleftrightarrow> (\<forall>v\<in>set vs. v = None)"
  by (simp only: median_None_iff present_empty_iff)

lemma collect_views_cells:
  assumes "collect_views getc embi cy var = Inr (cur, med, y19)"
  shows "\<exists>full sd w p q u.
      getc var = Inr full \<and> select_columns full embi = Inr sd
    \<and> p < length (index sd) \<and> mset cur = mset (iloc_row sd p)
    \<and> get_year_data sd 2019 = Inr (y19, u)
    \<and> q < length (index sd) \<and> mset y19 = mset (iloc_row sd q)
    \<and> loc_slice sd (cy - 9) cy = Inr w \<and> mset med = mset (frame_median w)"
proof -
  from assms obtain full sd uy where full: "getc var = Inr full"
    and sd: "select_columns full embi = Inr sd"
    and cur: "get_year_data sd cy = Inr (cur, uy)"
    and med: "median_10yr sd cy = Inr med"
    and y19: "(\<exists>u. get_year_data sd 2019 = Inr (y19, u))
        \<or> (\<exists>e. get_year_data sd 2019 = Inl e)"
    by (auto simp: collect_views_def split: sum.splits prod.splits)
  from get_year_data_nonempty [OF cur] have "index sd \<noteq> []" .
  from get_year_data_succeeds [OF this, of 2019] y19
  obtain u where u: "get_year_data sd 2019 = Inr (y19, u)" by auto
  from get_year_data_row [OF cur] obtain p
    where p: "p < length (index sd)" "mset cur = mset (iloc_row sd p)" by blast
  from get_year_data_row [OF u] obtain q
    where q: "q < length (index sd)" "mset y19 = mset (iloc_row sd q)" by blast
  from med obtain w where w: "loc_slice sd (cy - 9) cy = Inr w"
    and m: "med = sort_values (frame_median w)"
    by (auto simp: median_10yr_def split: sum.splits)
  from m have "mset med = mset (frame_median w)" by (simp add: mset_sort_values)
  with full sd p q u w show ?thesis by blast
qed

text \<open>
  Claim C6. For an indicator whose collection succeeds, the three views stored for it
  (current year, 10-year median, 2019) are defined over the same set of country codes, the
  codes derived from the holdings list. Missing source data stays absent and is never a
  number: the current-year view and the 2019 view each hold the cells of one row of the
  frame restricted to those codes, absent cells included, and an entry of the median view
  is absent exactly when its column has no observation among the rows of the window. Once
  the current-year lookup has succeeded the 2019 lookup succeeds as well, so the 2019 view
  is its result; the all-absent Series that the handler of a failed 2019 lookup stores is
  indexed by the same codes and holds no number.
\<close>

theorem views_share_country_set:
  assumes "collect_try getc embi current_year var st = (None, st')"
  shows "\<exists>full sd w cur med y19 p q u.
      getc var = Inr full \<and> select_columns full embi = Inr sd
    \<and> map_of (current_year_data st') var = Some (Some cur)
    \<and> map_of (median_10yr_data st') var = Some (Some med)
    \<and> map_of (data_2019 st') var = Some (Some y19)
    \<and> set (map fst cur) = set embi
    \<and> set (map fst med) = set embi
    \<and> set (map fst y19) = set embi
    \<and> p < length (index sd) \<and> mset cur = mset (iloc_row sd p)
    \<and> get_year_data sd 2019 = Inr (y19, u)
    \<and> q < length (index sd) \<and> mset y19 = mset (iloc_row sd q)
    \<and> loc_slice sd (current_year - 9) current_year = Inr w
    \<and> mset med = mset (map (\<lambda>(c, vs). (c, median (present vs))) (cols w))
    \<and> (\<forall>(c, vs)\<in>set (cols w). median (present vs) = None \<longleftrightarrow> (\<forall>v\<in>set vs. v = None))
    \<and> map fst (nan_series embi) = embi
    \<and> list_all is_nan (nan_series embi)"
proof -
  from collect_try_success [OF assms] obtain cur med y19
    where v: "collect_views getc embi current_year var = Inr (cur, med, y19)"
      and st': "st' = store var (Some (cur, med, y19)) st"
    by (metis prod_cases3)
  from st' have stored: "map_of (current_year_data st') var = Some (Some cur)"
    "map_of (median_10yr_data st') var = Some (Some med)"
    "map_of (data_2019 st') var = Some (Some y19)"
    by (simp_all add: store_def AList.update_conv')
  from collect_views_cells [OF v] obtain full sd w p q u
    where c: "getc var = Inr full" "select_columns full embi = Inr sd"
      "p < length (index sd)" "mset cur = mset (iloc_row sd p)"
      "get_year_data sd 2019 = Inr (y19, u)"
      "q < length (index sd)" "mset y19 = mset (iloc_row sd q)"
      "loc_slice sd (current_year - 9) current_year = Inr w"
      "mset med = mset (frame_median w)"
    by blast
  from c(9) have m: "mset med = mset (map (\<lambda>(c, vs). (c, median (present vs))) (cols w))"
    by (simp add: frame_median_def)
  have a: "\<forall>(c, vs)\<in>set (cols w). median (present vs) = None \<longleftrightarrow> (\<forall>v\<in>set vs. v = None)"
    using median_absent_iff by blast
  note k = collect_views_keys [OF v]
  from stored k c(1-8) m a nan_series_keys [of embi] nan_series_absent [of embi]
  show ?thesis by blast
qed









section \<open>Properties of the rolling median\<close>

text \<open>
  On a period index in ascending order the slice is the window: the median view of a
  column is the median of its observations from \<open>current_year - 9\<close> to \<open>current_year\<close>, and
  it is absent exactly when the column has no observation there.
\<close>

lemma period_years_map: "period_years (map Period ys) = Some ys"
  by (induction ys) simp_all

lemma sorted_prefix_count:
  fixes ys :: "int list"
  assumes "sorted ys" and down: "\<And>x y. x \<le> y \<Longrightarrow> P y \<Longrightarrow> P x" and "i < length ys"
  shows "P (ys ! i) \<longleftrightarrow> i < length (filter P ys)"
  using assms(1,3)
proof (induction ys arbitrary: i)
  case Nil
  then show ?case by simp
next
  case (Cons y ys)
  show ?case
  proof (cases "P y")
    case True
    with Cons show ?thesis by (cases i) auto
  next
    case False
    have none: "\<not> P z" if "z \<in> set (y # ys)" for z
      using that False Cons.prems(1) down by (metis set_ConsD sorted_simps(2))
    have "(y # ys) ! i \<in> set (y # ys)"
      using Cons.prems(2) by (rule nth_mem)
    with none have 1: "\<not> P ((y # ys) ! i)" by blast
    from none have 2: "filter P (y # ys) = []"
      unfolding filter_empty_conv by blast
    from 1 2 show ?thesis by simp
  qed
qed

lemma sorted_nth_eq_iff:
  fixes ys :: "int list"
  assumes "sorted ys" "i < length ys"
  shows "ys ! i = l \<longleftrightarrow>
    length (filter (\<lambda>y. y < l) ys) \<le> i \<and> i < length (filter (\<lambda>y. y \<le> l) ys)"
proof -
  have a: "ys ! i < l \<longleftrightarrow> i < length (filter (\<lambda>y. y < l) ys)"
    by (rule sorted_prefix_count [OF assms(1) _ assms(2)]) simp
  have b: "ys ! i \<le> l \<longleftrightarrow> i < length (filter (\<lambda>y. y \<le> l) ys)"
    by (rule sorted_prefix_count [OF assms(1) _ assms(2)]) simp
  show ?thesis using a b by auto
qed

lemma filter_upt_range:
  assumes "b \<le> n"
  shows "filter (\<lambda>i. a \<le> i \<and> i < b) [0..<n] = [a..<b]"
proof (rule sorted_distinct_set_unique)
  show "sorted (filter (\<lambda>i. a \<le> i \<and> i < b) [0..<n])" by (simp add: sorted_wrt_filter)
  show "distinct (filter (\<lambda>i. a \<le> i \<and> i < b) [0..<n])" by simp
  show "sorted [a..<b]" by simp
  show "distinct [a..<b]" by simp
  show "set (filter (\<lambda>i. a \<le> i \<and> i < b) [0..<n]) = set [a..<b]"
    using assms by auto
qed

lemma positions_sorted:
  fixes ys :: "int list"
  assumes "sorted ys"
  shows "positions (map Period ys) (Period l)
    = [length (filter (\<lambda>y. y < l) ys)..<length (filter (\<lambda>y. y \<le> l) ys)]"
proof -
  let ?a = "length (filter (\<lambda>y. y < l) ys)" and ?b = "length (filter (\<lambda>y. y \<le> l) ys)"
  have b: "?b \<le> length ys" by (rule length_filter_le)
  have "positions (map Period ys) (Period l)
      = filter (\<lambda>i. ?a \<le> i \<and> i < ?b) [0..<length ys]"
    unfolding positions_def length_map
    by (rule filter_cong) (auto simp: sorted_nth_eq_iff [OF assms])
  also have "\<dots> = [?a..<?b]"
    using b by (rule filter_upt_range)
  finally show ?thesis .
qed


lemma slice_bound_sorted:
  fixes ys :: "int list"
  assumes "sorted ys"
  shows "slice_bound (map Period ys) l True = Inr (length (filter (\<lambda>y. y < l) ys))"
    and "slice_bound (map Period ys) l False = Inr (length (filter (\<lambda>y. y \<le> l) ys))"
proof -
  let ?a = "length (filter (\<lambda>y. y < l) ys)" and ?b = "length (filter (\<lambda>y. y \<le> l) ys)"
  note ps = positions_sorted [OF assms, of l]
  show "slice_bound (map Period ys) l True = Inr ?a"
  proof (cases "?a < ?b")
    case True
    then have "filter (\<lambda>y. y \<le> l) ys \<noteq> []" by auto
    with True have "[?a..<?b] \<noteq> []" "hd [?a..<?b] = ?a" "contiguous [?a..<?b]"
      by (simp_all add: contiguous_def)
    then show ?thesis by (simp only: slice_bound_def ps Let_def if_True if_False simp_thms)
  next
    case False
    then show ?thesis
      using assms by (simp add: slice_bound_def ps period_years_map)
  qed
  show "slice_bound (map Period ys) l False = Inr ?b"
  proof (cases "?a < ?b")
    case True
    then have "filter (\<lambda>y. y \<le> l) ys \<noteq> []" by auto
    with True have "[?a..<?b] \<noteq> []" "last [?a..<?b] + 1 = ?b" "contiguous [?a..<?b]"
      by (simp_all add: contiguous_def)
    then show ?thesis by (simp only: slice_bound_def ps Let_def if_True if_False simp_thms)
  next
    case False
    have "?a \<le> ?b"
    proof -
      have "filter (\<lambda>y. y < l) ys = filter (\<lambda>y. y < l) (filter (\<lambda>y. y \<le> l) ys)"
        by (simp add: conj_commute cong: filter_cong) (rule filter_cong, auto)
      then show ?thesis by (metis length_filter_le)
    qed
    with False have "?a = ?b" by simp
    with False show ?thesis
      using assms by (simp add: slice_bound_def ps period_years_map)
  qed
qed

lemma window_values:
  fixes ys :: "int list"
  assumes "length vs = length ys" "sorted ys" "lo \<le> hi"
  shows "take (length (filter (\<lambda>y. y \<le> hi) ys) - length (filter (\<lambda>y. y < lo) ys))
          (drop (length (filter (\<lambda>y. y < lo) ys)) vs)
    = map snd (filter (\<lambda>(y, v). lo \<le> y \<and> y \<le> hi) (zip ys vs))"
  using assms
proof (induction vs ys rule: list_induct2)
  case Nil
  then show ?case by simp
next
  case (Cons v vs y ys)
  from Cons.prems have s: "sorted ys" and le: "\<forall>z\<in>set ys. y \<le> z" by simp_all
  note ih = Cons.IH [OF s Cons.prems(2)]
  consider "y < lo" | "lo \<le> y" "y \<le> hi" | "hi < y" "lo \<le> y" by linarith
  then show ?case
  proof cases
    case 1
    with Cons.prems(2) ih show ?thesis by simp
  next
    case 2
    with le have "filter (\<lambda>y. y < lo) ys = []" by (auto simp: filter_empty_conv)
    with 2 ih show ?thesis by simp
  next
    case 3
    with le have "filter (\<lambda>y. y < lo) ys = []" "filter (\<lambda>y. y \<le> hi) ys = []"
      by (auto simp: filter_empty_conv)
    with 3 ih show ?thesis by simp
  qed
qed

lemma median_10yr_period_window:
  assumes idx: "index f = map Period ys" and srt: "sorted ys"
    and wf: "\<forall>(c, vs)\<in>set (cols f). length vs = length ys"
  shows "median_10yr f cy
    = Inr (sort_values (map (\<lambda>(c, vs). (c, median (present (in_window cy ys vs)))) (cols f)))"
proof -
  let ?a = "length (filter (\<lambda>y. y < cy - 9) ys)"
  let ?b = "length (filter (\<lambda>y. y \<le> cy) ys)"
  have sl: "loc_slice f (cy - 9) cy
      = Inr \<lparr> index = take (?b - ?a) (drop ?a (index f)),
              cols = map (\<lambda>(c, vs). (c, take (?b - ?a) (drop ?a vs))) (cols f) \<rparr>"
    by (simp add: loc_slice_def idx slice_bound_sorted [OF srt])
  have el: "take (?b - ?a) (drop ?a vs) = in_window cy ys vs"
    if "(c, vs) \<in> set (cols f)" for c vs
  proof -
    from wf that have "length vs = length ys" by blast
    from window_values [OF this srt, of "cy - 9" cy] show ?thesis
      by (simp add: in_window_def)
  qed
  have fm: "frame_median \<lparr> index = take (?b - ?a) (drop ?a (index f)),
              cols = map (\<lambda>(c, vs). (c, take (?b - ?a) (drop ?a vs))) (cols f) \<rparr>
      = map (\<lambda>(c, vs). (c, median (present (in_window cy ys vs)))) (cols f)"
    unfolding frame_median_def using el by (auto simp: case_prod_beta)
  show ?thesis
    unfolding median_10yr_def sl by (simp only: sum.case fm)
qed

lemma json_keys_literal:
  assumes "(country, recs) \<in> set (country_metrics_json dfs)" "(indicator, entry) \<in> set recs"
  shows "map fst entry = [''2025'', ''2019'', ''10yr_Median'']"
  using assms by (auto simp: country_metrics_json_def)

section \<open>The sample run\<close>

lemmas eval_defs = collect_try_def sample_getc_def frame_per_def frame_int_def
  select_columns_def get_year_data_def with_year_def iloc_def iloc_row_def sort_values_def
  median_10yr_def loc_slice_def slice_bound_def positions_def contiguous_def
  monotonic_labels_def
  frame_median_def median_def present_def List.map_filter_def collect_init_def
  nan_series_def Let_def

lemmas assemble_defs = generate_def build_dff_def clean_data_def rename_columns_def
  rename_column_def var_dict_def add_suffix_def columns_tuples_def column_tuple_def
  endswith_def remove_all.simps str_int_def str_nat.simps digit_char_def
  frame_index_def first_seen_def concat_index_def
  get_country_df_def unstacked_def cell_def round1_def country_dfs_def
  country_metrics_json_def logical_order_def List.map_filter_def Let_def



lemma sample_collect_2026:
  "collect_all sample_getc [''BRA''] 2026 =
    \<lparr> current_year_data =
        [(''NGDPD'', None), (''LP'', Some [(''BRA'', Some 50)]),
         (''NGDP_RPCH'', None), (''NID_NGDP'', None), (''NGSD_NGDP'', None),
         (''PCPIPCH'', None), (''GGR_NGDP'', None), (''GGX_NGDP'', None),
         (''GGXCNL_NGDP'', None), (''GGXONLB_NGDP'', None),
         (''GGXWDG_NGDP'', None), (''BCA_NGDPD'', None)],
      median_10yr_data =
        [(''NGDPD'', None), (''LP'', Some [(''BRA'', Some 2)]),
         (''NGDP_RPCH'', None), (''NID_NGDP'', None), (''NGSD_NGDP'', None),
         (''PCPIPCH'', None), (''GGR_NGDP'', None), (''GGX_NGDP'', None),
         (''GGXCNL_NGDP'', None), (''GGXONLB_NGDP'', None),
         (''GGXWDG_NGDP'', None), (''BCA_NGDPD'', None)],
      data_2019 =
        [(''NGDPD'', None), (''LP'', Some [(''BRA'', Some 100)]),
         (''NGDP_RPCH'', None), (''NID_NGDP'', None), (''NGSD_NGDP'', None),
         (''PCPIPCH'', None), (''GGR_NGDP'', None), (''GGX_NGDP'', None),
         (''GGXCNL_NGDP'', None), (''GGXONLB_NGDP'', None),
         (''GGXWDG_NGDP'', None), (''BCA_NGDPD'', None)] \<rparr>"
  by (simp add: collect_all_def collect_var_def var_dict_def eval_defs upt_rec)

lemma sample_collect_2025:
  "collect_all sample_getc [''BRA''] 2025 =
    \<lparr> current_year_data =
        [(''NGDPD'', None), (''LP'', Some [(''BRA'', Some 2)]),
         (''NGDP_RPCH'', None), (''NID_NGDP'', None), (''NGSD_NGDP'', None),
         (''PCPIPCH'', None), (''GGR_NGDP'', None), (''GGX_NGDP'', None),
         (''GGXCNL_NGDP'', None), (''GGXONLB_NGDP'', None),
         (''GGXWDG_NGDP'', None), (''BCA_NGDPD'', None)],
      median_10yr_data =
        [(''NGDPD'', None), (''LP'', Some [(''BRA'', Some (3 / 2))]),
         (''NGDP_RPCH'', None), (''NID_NGDP'', None), (''NGSD_NGDP'', None),
         (''PCPIPCH'', None), (''GGR_NGDP'', None), (''GGX_NGDP'', None),
         (''GGXCNL_NGDP'', None), (''GGXONLB_NGDP'', None),
         (''GGXWDG_NGDP'', None), (''BCA_NGDPD'', None)],
      data_2019 =
        [(''NGDPD'', None), (''LP'', Some [(''BRA'', Some 100)]),
         (''NGDP_RPCH'', None), (''NID_NGDP'', None), (''NGSD_NGDP'', None),
         (''PCPIPCH'', None), (''GGR_NGDP'', None), (''GGX_NGDP'', None),
         (''GGXCNL_NGDP'', None), (''GGXONLB_NGDP'', None),
         (''GGXWDG_NGDP'', None), (''BCA_NGDPD'', None)] \<rparr>"
  by (simp add: collect_all_def collect_var_def var_dict_def eval_defs upt_rec)






lemma sample_lp_collected_two:
  "collect_try sample_getc [''BRA'', ''ARG''] 2025 ''LP'' collect_init =
    (None, \<lparr> current_year_data = [(''LP'', Some [(''BRA'', Some 2), (''ARG'', None)])],
       median_10yr_data = [(''LP'', Some [(''BRA'', Some (3 / 2)), (''ARG'', None)])],
       data_2019 = [(''LP'', Some [(''BRA'', Some 100), (''ARG'', None)])] \<rparr>)"
  by (simp add: eval_defs upt_rec)

theorem views_share_country_set_witness:
  "collect_try sample_getc [''BRA'', ''ARG''] 2025 ''LP'' collect_init =
    (None, \<lparr> current_year_data = [(''LP'', Some [(''BRA'', Some 2), (''ARG'', None)])],
       median_10yr_data = [(''LP'', Some [(''BRA'', Some (3 / 2)), (''ARG'', None)])],
       data_2019 = [(''LP'', Some [(''BRA'', Some 100), (''ARG'', None)])] \<rparr>)
   \<and> set (map fst [(''BRA'', Some (2 :: real)), (''ARG'', None)]) = set [''BRA'', ''ARG'']
   \<and> nan_series [''BRA'', ''ARG''] = [(''BRA'', None), (''ARG'', None)]"
  using views_share_country_set [OF sample_lp_collected_two] sample_lp_collected_two
  by (simp add: nan_series_eq)


text \<open>
  Claim C5, at a frame with integer year labels (the index \<open>CustomWEO.getc\<close> builds): the
  year resolution finds 2025, but the period slice of the 10-year median raises, so the
  median over the window, here of the values 1 and 2, is not computed and the indicator
  ends in the \<open>except\<close> branch.
\<close>

theorem median_10yr_integer_index_raises:
  "get_year_data frame_int 2025 = Inr ([(''BRA'', Some 2)], YInt 2025)
   \<and> median_10yr frame_int 2025 = Inl TypeError
   \<and> fst (collect_try sample_getc [''BRA''] 2025 ''NGDPD'' collect_init) = Some TypeError"
  by (simp add: eval_defs upt_rec)

text \<open>
  Claim C1, at the current year 2026: the merged frame carries the period label
  \<open>2026\<close>, the projection selects the literal \<open>2025\<close> and raises for every country, and the
  serialized structure is empty; at 2025 the same source gives the record of Brazil, under
  the literal key \<open>2025\<close>.
\<close>

theorem generate_2026_empty:
  "generate sample_getc [''BRA''] 2026 = Inr []
   \<and> generate sample_getc [''BRA''] 2025 =
       Inr [(''BRA'', [(''Population'',
         [(''2025'', Some 2), (''2019'', Some 100), (''10yr_Median'', Some (3 / 2))])])]"
  by (simp add: sample_collect_2026 sample_collect_2025 assemble_defs)

end
